theory Spec2Isabelle
  imports Main "HOL-Library.Word" "HOL-Library.Sublist"
begin

section \<open>JavaScript strings\<close>

text \<open>
  A JavaScript string is a sequence of 16-bit code units.  \<open>str\<close> turns an ASCII
  literal of the source into such a sequence.
\<close>

type_synonym jsstring = "16 word list"

definition str :: "string \<Rightarrow> jsstring" where
  "str s = map of_char s"

text \<open>
  \<open>s.split(sep)\<close> for a non-empty separator: the separator is searched from left to
  right, matches do not overlap, and the pieces between the matches are returned (one piece,
  the whole string, when there is no match).  The source only splits on \<open>'&'\<close>,
  \<open>'='\<close> and \<open>'|||'\<close>; with an empty separator the function returns the string whole
  (JavaScript would split it into code units, which the source never asks for).
\<close>

fun split_acc :: "jsstring \<Rightarrow> jsstring \<Rightarrow> jsstring \<Rightarrow> jsstring list" where
  "split_acc sep acc [] = [rev acc]"
| "split_acc sep acc (c # cs) =
     (if sep \<noteq> [] \<and> prefix sep (c # cs)
      then rev acc # split_acc sep [] (drop (length sep - 1) cs)
      else split_acc sep (c # acc) cs)"

definition split :: "jsstring \<Rightarrow> jsstring \<Rightarrow> jsstring list" where
  "split sep s = split_acc sep [] s"

text \<open>\<open>xs.join(sep)\<close> on a list of strings.\<close>

fun join :: "jsstring \<Rightarrow> jsstring list \<Rightarrow> jsstring" where
  "join sep [] = []"
| "join sep [x] = x"
| "join sep (x # y # ys) = x @ sep @ join sep (y # ys)"

text \<open>
  \<open>s.trim()\<close> removes the white space and line terminator code units of ECMAScript from
  both ends.
\<close>

definition is_white_space :: "16 word \<Rightarrow> bool" where
  "is_white_space c \<longleftrightarrow>
     c \<in> set [0x9, 0xA, 0xB, 0xC, 0xD, 0x20, 0xA0, 0x1680, 0x2028, 0x2029, 0x202F,
               0x205F, 0x3000, 0xFEFF]
     \<or> (0x2000 \<le> c \<and> c \<le> 0x200A)"

definition trim :: "jsstring \<Rightarrow> jsstring" where
  "trim s = rev (dropWhile is_white_space (rev (dropWhile is_white_space s)))"

text \<open>\<open>s.replace(/\+/g, ' ')\<close>: every plus sign becomes a space.\<close>

definition replace_plus :: "jsstring \<Rightarrow> jsstring" where
  "replace_plus s = map (\<lambda>c. if c = 0x2B then 0x20 else c) s"

text \<open>Decimal text of a natural number, as \<open>String(n)\<close> prints an array length or index.\<close>

fun digits_acc :: "nat \<Rightarrow> nat \<Rightarrow> jsstring \<Rightarrow> jsstring" where
  "digits_acc 0 n acc = acc"
| "digits_acc (Suc fuel) n acc =
     (if n < 10 then of_nat (48 + n) # acc
      else digits_acc fuel (n div 10) (of_nat (48 + n mod 10) # acc))"

definition nat_str :: "nat \<Rightarrow> jsstring" where
  "nat_str n = digits_acc (Suc n) n []"

section \<open>Errors\<close>

text \<open>
  Every \<open>throw\<close> the handler can meet is a value.  \<open>ServiceError\<close> is an exception raised
  by a platform service (spreadsheet, mail), with its message.
\<close>

datatype js_error =
    URIError
  | TypeError jsstring
  | ServiceError jsstring

text \<open>The messages of the V8 runtime for the built-in errors met here.\<close>

definition null_property :: js_error where
  "null_property = TypeError (str ''Cannot read properties of null (reading '_field_order')'')"

definition undefined_replace :: js_error where
  "undefined_replace =
     TypeError (str ''Cannot read properties of undefined (reading 'replace')'')"

definition null_to_object :: js_error where
  "null_to_object = TypeError (str ''Cannot convert undefined or null to object'')"

definition to_primitive :: js_error where
  "to_primitive = TypeError (str ''Cannot convert object to primitive value'')"

text \<open>\<open>err.message\<close>.\<close>

fun message :: "js_error \<Rightarrow> jsstring" where
  "message URIError = str ''URI malformed''"
| "message (TypeError m) = m"
| "message (ServiceError m) = m"

section \<open>decodeURIComponent\<close>

text \<open>
  The built-in \<open>decodeURIComponent\<close> (ECMAScript \<open>Decode\<close> with an empty reserved set):
  a code unit other than \<open>%\<close> is kept; \<open>%XX\<close> with an octet below \<open>0x80\<close> is that
  character; an octet that starts a UTF-8 sequence of 2 to 4 octets must be followed by the
  remaining octets, each written \<open>%XX\<close>, the whole being the UTF-8 encoding of a code
  point, which is appended in UTF-16.  Anything else throws \<open>URIError\<close>.
\<close>

definition hexval :: "16 word \<Rightarrow> nat option" where
  "hexval c =
     (if 0x30 \<le> c \<and> c \<le> 0x39 then Some (unat c - 48)
      else if 0x41 \<le> c \<and> c \<le> 0x46 then Some (unat c - 55)
      else if 0x61 \<le> c \<and> c \<le> 0x66 then Some (unat c - 87)
      else None)"

definition octet_at :: "jsstring \<Rightarrow> nat option" where
  "octet_at s =
     (case s of
        p # h # l # _ \<Rightarrow>
          (if p = 0x25 then
             (case (hexval h, hexval l) of
                (Some a, Some b) \<Rightarrow> Some (16 * a + b)
              | _ \<Rightarrow> None)
           else None)
      | _ \<Rightarrow> None)"

fun octets_at :: "nat \<Rightarrow> jsstring \<Rightarrow> nat list option" where
  "octets_at 0 s = Some []"
| "octets_at (Suc n) s =
     (case octet_at s of
        None \<Rightarrow> None
      | Some b \<Rightarrow>
          (case octets_at n (drop 3 s) of
             None \<Rightarrow> None
           | Some bs \<Rightarrow> Some (b # bs)))"

definition leading_ones :: "nat \<Rightarrow> nat" where
  "leading_ones b =
     (if b < 0x80 then 0 else if b < 0xC0 then 1 else if b < 0xE0 then 2
      else if b < 0xF0 then 3 else if b < 0xF8 then 4 else 5)"

definition is_continuation :: "nat \<Rightarrow> bool" where
  "is_continuation b \<longleftrightarrow> 0x80 \<le> b \<and> b < 0xC0"

text \<open>
  The code point of a UTF-8 sequence, \<open>None\<close> when the octets are not the (shortest)
  encoding of a code point that is no surrogate and at most \<open>0x10FFFF\<close>.
\<close>

definition utf8_codepoint :: "nat list \<Rightarrow> nat option" where
  "utf8_codepoint os =
     (case os of
        [a, b] \<Rightarrow>
          (let v = (a mod 32) * 64 + b mod 64
           in if is_continuation b \<and> 0x80 \<le> v then Some v else None)
      | [a, b, c] \<Rightarrow>
          (let v = ((a mod 16) * 64 + b mod 64) * 64 + c mod 64
           in if is_continuation b \<and> is_continuation c \<and> 0x800 \<le> v
                 \<and> \<not> (0xD800 \<le> v \<and> v < 0xE000)
              then Some v else None)
      | [a, b, c, d] \<Rightarrow>
          (let v = (((a mod 8) * 64 + b mod 64) * 64 + c mod 64) * 64 + d mod 64
           in if is_continuation b \<and> is_continuation c \<and> is_continuation d
                 \<and> 0x10000 \<le> v \<and> v \<le> 0x10FFFF
              then Some v else None)
      | _ \<Rightarrow> None)"

definition utf16_encode :: "nat \<Rightarrow> jsstring" where
  "utf16_encode v =
     (if v < 0x10000 then [of_nat v]
      else [of_nat (0xD800 + (v - 0x10000) div 1024),
            of_nat (0xDC00 + (v - 0x10000) mod 1024)])"

fun decodeURIComponent :: "jsstring \<Rightarrow> js_error + jsstring" where
  "decodeURIComponent [] = Inr []"
| "decodeURIComponent (c # cs) =
     (if c \<noteq> 0x25 then
        (case decodeURIComponent cs of
           Inl e \<Rightarrow> Inl e
         | Inr r \<Rightarrow> Inr (c # r))
      else
        (case octet_at (c # cs) of
           None \<Rightarrow> Inl URIError
         | Some b \<Rightarrow>
             (if leading_ones b = 0 then
                (case decodeURIComponent (drop 2 cs) of
                   Inl e \<Rightarrow> Inl e
                 | Inr r \<Rightarrow> Inr (of_nat b # r))
              else if leading_ones b = 1 \<or> 4 < leading_ones b then Inl URIError
              else
                (case octets_at (leading_ones b) (c # cs) of
                   None \<Rightarrow> Inl URIError
                 | Some os \<Rightarrow>
                     (case utf8_codepoint os of
                        None \<Rightarrow> Inl URIError
                      | Some v \<Rightarrow>
                          (case decodeURIComponent (drop (3 * leading_ones b - 1) cs) of
                             Inl e \<Rightarrow> Inl e
                           | Inr r \<Rightarrow> Inr (utf16_encode v @ r)))))))"

section \<open>Values\<close>

text \<open>
  The values the handler meets.  A number is given by the text \<open>String\<close> prints for it
  (\<open>''0''\<close>, \<open>''1.5''\<close>, \<open>''NaN''\<close>): the handler only converts numbers to strings
  and tests them for truth.  \<open>JObj\<close> is a plain object (its prototype is
  \<open>Object.prototype\<close>) with its own properties in creation order.  \<open>JFunction n\<close> is
  the native function named \<open>n\<close> and \<open>JPrototype b\<close> a built-in prototype object;
  both occur as what an inherited property holds, never in parsed data.
\<close>

datatype builtin =
    ObjectPrototype
  | ArrayPrototype
  | StringPrototype
  | NumberPrototype
  | BooleanPrototype

datatype jsval =
    JUndefined
  | JNull
  | JBool bool
  | JNum jsstring
  | JStr jsstring
  | JArr "jsval list"
  | JObj "(jsstring \<times> jsval) list"
  | JFunction jsstring
  | JPrototype builtin

text \<open>
  An object built by the handler (\<open>obj\<close>, \<open>data\<close>): its own properties in creation
  order, and its prototype.  The prototype is \<open>Object.prototype\<close> until an assignment
  to the inherited accessor \<open>__proto__\<close> replaces it, see \<open>set_prop\<close>.
\<close>

datatype jsobject = Obj "(jsstring \<times> jsval) list" jsval

definition empty_object :: jsobject where
  "empty_object = Obj [] (JPrototype ObjectPrototype)"

text \<open>\<open>data\<close> is such an object, or the value \<open>JSON.parse\<close> returned.\<close>

datatype jsdata =
    Value jsval
  | Built jsobject

subsection \<open>Truth and string conversion\<close>

fun truthy :: "jsval \<Rightarrow> bool" where
  "truthy JUndefined = False"
| "truthy JNull = False"
| "truthy (JBool b) = b"
| "truthy (JNum n) = (n \<noteq> str ''0'' \<and> n \<noteq> str ''NaN'')"
| "truthy (JStr s) = (s \<noteq> [])"
| "truthy (JArr xs) = True"
| "truthy (JObj ps) = True"
| "truthy (JFunction n) = True"
| "truthy (JPrototype b) = True"

definition is_nullish :: "jsval \<Rightarrow> bool" where
  "is_nullish v \<longleftrightarrow> v = JUndefined \<or> v = JNull"

text \<open>Joining where any piece may throw: the first error, from the left, wins.\<close>

fun join_results :: "jsstring \<Rightarrow> (js_error + jsstring) list \<Rightarrow> js_error + jsstring" where
  "join_results sep [] = Inr []"
| "join_results sep [x] = x"
| "join_results sep (x # y # ys) =
     (case x of
        Inl e \<Rightarrow> Inl e
      | Inr s \<Rightarrow>
          (case join_results sep (y # ys) of
             Inl e \<Rightarrow> Inl e
           | Inr r \<Rightarrow> Inr (s @ sep @ r)))"

text \<open>
  \<open>String(v)\<close>.  An array prints its elements joined by commas, \<open>null\<close> and
  \<open>undefined\<close> elements as nothing.  A plain object prints \<open>[object Object]\<close> through
  the inherited \<open>toString\<close>; when it has an own property \<open>toString\<close> (never a function
  in parsed data) the conversion falls to \<open>valueOf\<close>, which yields no primitive either
  way, and throws \<open>TypeError\<close>.
\<close>

fun to_string :: "jsval \<Rightarrow> js_error + jsstring" where
  "to_string JUndefined = Inr (str ''undefined'')"
| "to_string JNull = Inr (str ''null'')"
| "to_string (JBool b) = Inr (if b then str ''true'' else str ''false'')"
| "to_string (JNum n) = Inr n"
| "to_string (JStr s) = Inr s"
| "to_string (JArr xs) =
     join_results (str '','')
       (map (\<lambda>x. if x = JUndefined \<or> x = JNull then Inr [] else to_string x) xs)"
| "to_string (JObj ps) =
     (if str ''toString'' \<in> fst ` set ps then Inl to_primitive
      else Inr (str ''[object Object]''))"
| "to_string (JFunction n) = Inr (str ''function '' @ n @ str ''() { [native code] }'')"
| "to_string (JPrototype b) =
     Inr (case b of
            ObjectPrototype \<Rightarrow> str ''[object Object]''
          | ArrayPrototype \<Rightarrow> []
          | StringPrototype \<Rightarrow> []
          | NumberPrototype \<Rightarrow> str ''0''
          | BooleanPrototype \<Rightarrow> str ''false'')"

text \<open>
  \<open>xs.join(', ')\<close> on an array: \<open>null\<close> and \<open>undefined\<close> elements print as
  nothing, every other element by \<open>String\<close>.
\<close>

definition array_join :: "jsstring \<Rightarrow> jsval list \<Rightarrow> js_error + jsstring" where
  "array_join sep xs =
     join_results sep (map (\<lambda>x. if is_nullish x then Inr [] else to_string x) xs)"

section \<open>Properties\<close>

subsection \<open>Inherited properties\<close>

text \<open>
  The string-keyed properties of the standard prototype objects (ECMAScript 2023 with its
  annex B).  All are methods, but \<open>constructor\<close>, the \<open>length\<close> of the array and
  string prototypes, and the accessor \<open>__proto__\<close> of \<open>Object.prototype\<close>, which is
  kept apart (\<open>ProtoAccessor\<close> below).
\<close>

definition methods :: "string list \<Rightarrow> (jsstring \<times> jsval) list" where
  "methods ns = map (\<lambda>n. (str n, JFunction (str n))) ns"

definition object_prototype :: "(jsstring \<times> jsval) list" where
  "object_prototype =
     (str ''constructor'', JFunction (str ''Object'')) #
     methods [''__defineGetter__'', ''__defineSetter__'', ''hasOwnProperty'',
       ''__lookupGetter__'', ''__lookupSetter__'', ''isPrototypeOf'',
       ''propertyIsEnumerable'', ''toString'', ''valueOf'', ''toLocaleString'']"

definition array_prototype :: "(jsstring \<times> jsval) list" where
  "array_prototype =
     (str ''length'', JNum (str ''0'')) #
     (str ''constructor'', JFunction (str ''Array'')) #
     methods [''at'', ''concat'', ''copyWithin'', ''fill'', ''find'', ''findIndex'',
       ''findLast'', ''findLastIndex'', ''lastIndexOf'', ''pop'', ''push'', ''reverse'',
       ''shift'', ''unshift'', ''slice'', ''sort'', ''splice'', ''includes'', ''indexOf'',
       ''join'', ''keys'', ''entries'', ''values'', ''forEach'', ''filter'', ''flat'',
       ''flatMap'', ''map'', ''every'', ''some'', ''reduce'', ''reduceRight'',
       ''toLocaleString'', ''toString'', ''toReversed'', ''toSorted'', ''toSpliced'',
       ''with'']"

definition string_prototype :: "(jsstring \<times> jsval) list" where
  "string_prototype =
     (str ''length'', JNum (str ''0'')) #
     (str ''constructor'', JFunction (str ''String'')) #
     methods [''anchor'', ''at'', ''big'', ''blink'', ''bold'', ''charAt'', ''charCodeAt'',
       ''codePointAt'', ''concat'', ''endsWith'', ''fontcolor'', ''fontsize'', ''fixed'',
       ''includes'', ''indexOf'', ''isWellFormed'', ''italics'', ''lastIndexOf'', ''link'',
       ''localeCompare'', ''match'', ''matchAll'', ''normalize'', ''padEnd'', ''padStart'',
       ''repeat'', ''replace'', ''replaceAll'', ''search'', ''slice'', ''small'', ''split'',
       ''strike'', ''sub'', ''substr'', ''substring'', ''sup'', ''startsWith'', ''toString'',
       ''toWellFormed'', ''trim'', ''trimStart'', ''trimLeft'', ''trimEnd'', ''trimRight'',
       ''toLocaleLowerCase'', ''toLocaleUpperCase'', ''toLowerCase'', ''toUpperCase'',
       ''valueOf'']"

definition number_prototype :: "(jsstring \<times> jsval) list" where
  "number_prototype =
     (str ''constructor'', JFunction (str ''Number'')) #
     methods [''toExponential'', ''toFixed'', ''toPrecision'', ''toString'', ''valueOf'',
       ''toLocaleString'']"

definition boolean_prototype :: "(jsstring \<times> jsval) list" where
  "boolean_prototype =
     (str ''constructor'', JFunction (str ''Boolean'')) #
     methods [''toString'', ''valueOf'']"

subsection \<open>Array indices\<close>

text \<open>
  A property key is an array index when it is the canonical decimal text of a number below
  \<open>2^32 - 1\<close>.
\<close>

definition is_digit :: "16 word \<Rightarrow> bool" where
  "is_digit c \<longleftrightarrow> 0x30 \<le> c \<and> c \<le> 0x39"

definition decimal_value :: "jsstring \<Rightarrow> int" where
  "decimal_value s = foldl (\<lambda>n c. 10 * n + (uint c - 48)) 0 s"

definition array_index :: "jsstring \<Rightarrow> nat option" where
  "array_index k =
     (if k \<noteq> [] \<and> list_all is_digit k \<and> (hd k \<noteq> 0x30 \<or> length k = 1)
         \<and> decimal_value k < 4294967295
      then Some (nat (decimal_value k)) else None)"

subsection \<open>Reading a property\<close>

datatype property = Data jsval | ProtoAccessor

text \<open>The own properties of a value.\<close>

fun own_prop :: "jsval \<Rightarrow> jsstring \<Rightarrow> jsval option" where
  "own_prop (JObj ps) k = map_of ps k"
| "own_prop (JArr xs) k =
     (if k = str ''length'' then Some (JNum (nat_str (length xs)))
      else (case array_index k of
              Some i \<Rightarrow> (if i < length xs then Some (xs ! i) else None)
            | None \<Rightarrow> None))"
| "own_prop (JStr s) k =
     (if k = str ''length'' then Some (JNum (nat_str (length s)))
      else (case array_index k of
              Some i \<Rightarrow> (if i < length s then Some (JStr [s ! i]) else None)
            | None \<Rightarrow> None))"
| "own_prop (JPrototype b) k =
     map_of (case b of
               ObjectPrototype \<Rightarrow> object_prototype
             | ArrayPrototype \<Rightarrow> array_prototype
             | StringPrototype \<Rightarrow> string_prototype
             | NumberPrototype \<Rightarrow> number_prototype
             | BooleanPrototype \<Rightarrow> boolean_prototype) k"
| "own_prop v k = None"

text \<open>What \<open>Object.prototype\<close>, the end of every chain here, holds under a key.\<close>

definition in_object_prototype :: "jsstring \<Rightarrow> property option" where
  "in_object_prototype k =
     (if k = str ''__proto__'' then Some ProtoAccessor
      else map_option Data (map_of object_prototype k))"

text \<open>The properties a value inherits: its own prototype's, then \<open>Object.prototype\<close>'s.\<close>

fun proto_table :: "jsval \<Rightarrow> (jsstring \<times> jsval) list" where
  "proto_table (JArr xs) = array_prototype"
| "proto_table (JStr s) = string_prototype"
| "proto_table (JNum n) = number_prototype"
| "proto_table (JBool b) = boolean_prototype"
| "proto_table v = []"

definition inherited :: "jsval \<Rightarrow> jsstring \<Rightarrow> property option" where
  "inherited v k =
     (if v = JPrototype ObjectPrototype \<or> v = JNull \<or> v = JUndefined then None
      else (case map_of (proto_table v) k of
              Some x \<Rightarrow> Some (Data x)
            | None \<Rightarrow> in_object_prototype k))"

text \<open>The property found under a key, along the prototype chain.\<close>

definition find_prop_val :: "jsval \<Rightarrow> jsstring \<Rightarrow> property option" where
  "find_prop_val v k =
     (if v = JPrototype ObjectPrototype then in_object_prototype k
      else (case own_prop v k of
              Some x \<Rightarrow> Some (Data x)
            | None \<Rightarrow> inherited v k))"

fun find_prop_obj :: "jsobject \<Rightarrow> jsstring \<Rightarrow> property option" where
  "find_prop_obj (Obj ps p) k =
     (case map_of ps k of
        Some x \<Rightarrow> Some (Data x)
      | None \<Rightarrow> find_prop_val p k)"

text \<open>The prototype, as the accessor \<open>__proto__\<close> reads it.\<close>

fun proto_of_val :: "jsval \<Rightarrow> jsval" where
  "proto_of_val (JObj ps) = JPrototype ObjectPrototype"
| "proto_of_val (JArr xs) = JPrototype ArrayPrototype"
| "proto_of_val (JStr s) = JPrototype StringPrototype"
| "proto_of_val (JNum n) = JPrototype NumberPrototype"
| "proto_of_val (JBool b) = JPrototype BooleanPrototype"
| "proto_of_val v = JNull"

text \<open>\<open>obj[k]\<close> on a built object: a key found nowhere on the chain reads \<open>undefined\<close>.\<close>

fun read_prop :: "jsobject \<Rightarrow> jsstring \<Rightarrow> jsval" where
  "read_prop (Obj ps p) k =
     (case find_prop_obj (Obj ps p) k of
        None \<Rightarrow> JUndefined
      | Some (Data x) \<Rightarrow> x
      | Some ProtoAccessor \<Rightarrow> p)"

text \<open>
  \<open>data[k]\<close>: the same on every value, but that reading a property of \<open>null\<close> or
  \<open>undefined\<close> throws \<open>TypeError\<close>.
\<close>

fun get_prop :: "jsdata \<Rightarrow> jsstring \<Rightarrow> js_error + jsval" where
  "get_prop (Built obj) k = Inr (read_prop obj k)"
| "get_prop (Value v) k =
     (if v = JNull \<or> v = JUndefined then Inl null_property
      else (case find_prop_val v k of
              None \<Rightarrow> Inr JUndefined
            | Some (Data x) \<Rightarrow> Inr x
            | Some ProtoAccessor \<Rightarrow> Inr (proto_of_val v)))"

subsection \<open>Writing a property\<close>

text \<open>Replacing the value of an own property keeps its place in the creation order.\<close>

definition assign :: "jsstring \<Rightarrow> jsval \<Rightarrow> (jsstring \<times> jsval) list \<Rightarrow> (jsstring \<times> jsval) list" where
  "assign k v ps = map (\<lambda>(k', x). if k' = k then (k', v) else (k', x)) ps"

definition is_object :: "jsval \<Rightarrow> bool" where
  "is_object v \<longleftrightarrow>
     (case v of JArr xs \<Rightarrow> True | JObj ps \<Rightarrow> True | JFunction n \<Rightarrow> True
      | JPrototype b \<Rightarrow> True | _ \<Rightarrow> False)"

text \<open>
  \<open>obj[k] = v\<close>.  An own property is overwritten.  Otherwise, when the key resolves to
  the accessor \<open>__proto__\<close> of \<open>Object.prototype\<close>, its setter runs: an object or
  \<open>null\<close> becomes the prototype of \<open>obj\<close>, any other value is ignored, and no own
  property is made.  In every other case a new own property is added last.
\<close>

fun set_prop :: "jsobject \<Rightarrow> jsstring \<Rightarrow> jsval \<Rightarrow> jsobject" where
  "set_prop (Obj ps p) k v =
     (if k \<in> fst ` set ps then Obj (assign k v ps) p
      else if find_prop_val p k = Some ProtoAccessor then
        (if is_object v \<or> v = JNull then Obj ps v else Obj ps p)
      else Obj (ps @ [(k, v)]) p)"

text \<open>
  \<open>obj[k].push(v)\<close>, for a key under which \<open>obj[k]\<close> is an array: the array grows where
  it lives, in an own property, in the prototype itself (read through \<open>__proto__\<close>), or
  in a property of the prototype.
\<close>

fun append_elem :: "jsval \<Rightarrow> jsval \<Rightarrow> jsval" where
  "append_elem (JArr xs) v = JArr (xs @ [v])"
| "append_elem x v = x"

fun push_into :: "jsval \<Rightarrow> jsstring \<Rightarrow> jsval \<Rightarrow> jsval" where
  "push_into (JObj qs) k v =
     JObj (map (\<lambda>(k', x). if k' = k then (k', append_elem x v) else (k', x)) qs)"
| "push_into (JArr a) k v =
     (case array_index k of
        Some i \<Rightarrow> (if i < length a then JArr (a[i := append_elem (a ! i) v]) else JArr a)
      | None \<Rightarrow> JArr a)"
| "push_into x k v = x"

fun push_prop :: "jsobject \<Rightarrow> jsstring \<Rightarrow> jsval \<Rightarrow> jsobject" where
  "push_prop (Obj ps p) k v =
     (case map_of ps k of
        Some x \<Rightarrow> Obj (assign k (append_elem x v) ps) p
      | None \<Rightarrow>
          (if find_prop_val p k = Some ProtoAccessor then Obj ps (append_elem p v)
           else Obj ps (push_into p k v)))"

text \<open>\<open>delete data[k]\<close> removes an own property; the keys used here are no array indices.\<close>

definition remove_key :: "jsstring \<Rightarrow> (jsstring \<times> jsval) list \<Rightarrow> (jsstring \<times> jsval) list" where
  "remove_key k ps = filter (\<lambda>(k', x). k' \<noteq> k) ps"

fun delete_prop :: "jsdata \<Rightarrow> jsstring \<Rightarrow> jsdata" where
  "delete_prop (Built (Obj ps p)) k = Built (Obj (remove_key k ps) p)"
| "delete_prop (Value (JObj ps)) k = Value (JObj (remove_key k ps))"
| "delete_prop d k = d"

subsection \<open>Enumerating the keys\<close>

text \<open>
  \<open>Object.keys\<close> and \<open>for ... in\<close> list the own enumerable string keys: the array
  indices first, in ascending numeric order, then the other keys in creation order.  The
  properties of the built-in prototypes are not enumerable, nor is \<open>length\<close>.
\<close>

definition order_keys :: "jsstring list \<Rightarrow> jsstring list" where
  "order_keys ks =
     sort_key decimal_value (filter (\<lambda>k. array_index k \<noteq> None) ks)
     @ filter (\<lambda>k. array_index k = None) ks"

fun keys_val :: "jsval \<Rightarrow> jsstring list" where
  "keys_val (JObj ps) = order_keys (map fst ps)"
| "keys_val (JArr xs) = map nat_str [0..<length xs]"
| "keys_val (JStr s) = map nat_str [0..<length s]"
| "keys_val v = []"

fun object_keys :: "jsdata \<Rightarrow> js_error + jsstring list" where
  "object_keys (Built (Obj ps p)) = Inr (order_keys (map fst ps))"
| "object_keys (Value v) =
     (if v = JNull \<or> v = JUndefined then Inl null_to_object else Inr (keys_val v))"

section \<open>The receiver\<close>

subsection \<open>parseQueryString\<close>

text \<open>
  One \<open>key=value\<close> pair of the body: an empty pair is skipped; the key is the text
  before the first \<open>=\<close>, the value the text after it; both have \<open>+\<close> replaced by a
  space and are then percent-decoded.  The first value of a key is stored as a string, a
  second one turns the property into a list, later ones are pushed onto it.
\<close>

definition parse_pair :: "jsobject \<Rightarrow> jsstring \<Rightarrow> js_error + jsobject" where
  "parse_pair obj pair =
     (if pair = [] then Inr obj
      else
        (case split (str ''='') pair of
           [] \<Rightarrow> Inl undefined_replace
         | first # parts \<Rightarrow>
             (case decodeURIComponent (replace_plus first) of
                Inl e \<Rightarrow> Inl e
              | Inr k \<Rightarrow>
                  (case decodeURIComponent (replace_plus (join (str ''='') parts)) of
                     Inl e \<Rightarrow> Inl e
                   | Inr v \<Rightarrow>
                       (case read_prop obj k of
                          JUndefined \<Rightarrow> Inr (set_prop obj k (JStr v))
                        | JArr xs \<Rightarrow> Inr (push_prop obj k (JStr v))
                        | x \<Rightarrow> Inr (set_prop obj k (JArr [x, JStr v])))))))"

fun parse_pairs :: "jsobject \<Rightarrow> jsstring list \<Rightarrow> js_error + jsobject" where
  "parse_pairs obj [] = Inr obj"
| "parse_pairs obj (pair # pairs) =
     (case parse_pair obj pair of
        Inl e \<Rightarrow> Inl e
      | Inr obj' \<Rightarrow> parse_pairs obj' pairs)"

definition parseQueryString :: "jsstring \<Rightarrow> js_error + jsobject" where
  "parseQueryString qs = parse_pairs empty_object (split (str ''&'') qs)"

subsection \<open>normalizeValue\<close>

definition normalizeValue :: "jsval \<Rightarrow> js_error + jsstring" where
  "normalizeValue v =
     (if v = JNull \<or> v = JUndefined then Inr []
      else (case v of
              JArr xs \<Rightarrow> array_join (str '', '') xs
            | _ \<Rightarrow> to_string v))"

subsection \<open>The request\<close>

text \<open>
  The event object of the platform.  \<open>postData\<close> may be absent, and so may its
  \<open>type\<close> and \<open>contents\<close>; \<open>parameter\<close> holds the fields the platform parsed
  itself, each a string or, as the handler allows for, a list of strings.
\<close>

record post_data =
  ptype :: "jsstring option"
  contents :: "jsstring option"

datatype param = Single jsstring | Multi "jsstring list"

record event =
  postData :: "post_data option"
  parameter :: "(jsstring \<times> param) list option"

text \<open>\<open>Array.isArray(val) ? val[0] : val\<close>.\<close>

fun first_value :: "param \<Rightarrow> jsval" where
  "first_value (Single v) = JStr v"
| "first_value (Multi []) = JUndefined"
| "first_value (Multi (v # vs)) = JStr v"

text \<open>\<open>for (let k in e.parameter) data[k] = ...\<close>, the keys in enumeration order.\<close>

fun copy_params :: "(jsstring \<times> param) list \<Rightarrow> jsstring list \<Rightarrow> jsobject \<Rightarrow> jsobject" where
  "copy_params ps [] data = data"
| "copy_params ps (k # ks) data =
     (case map_of ps k of
        None \<Rightarrow> copy_params ps ks data
      | Some val \<Rightarrow> copy_params ps ks (set_prop data k (first_value val)))"

definition is_json :: "event \<Rightarrow> bool" where
  "is_json e \<longleftrightarrow>
     (case postData e of
        None \<Rightarrow> False
      | Some pd \<Rightarrow>
          (case ptype pd of
             None \<Rightarrow> False
           | Some t \<Rightarrow> t \<noteq> [] \<and> prefix (str ''application/json'') t))"

definition has_params :: "event \<Rightarrow> bool" where
  "has_params e \<longleftrightarrow>
     (case parameter e of None \<Rightarrow> False | Some ps \<Rightarrow> ps \<noteq> [])"

definition has_contents :: "event \<Rightarrow> bool" where
  "has_contents e \<longleftrightarrow>
     (case postData e of
        None \<Rightarrow> False
      | Some pd \<Rightarrow> (case contents pd of None \<Rightarrow> False | Some c \<Rightarrow> c \<noteq> []))"

definition body :: "event \<Rightarrow> jsstring" where
  "body e =
     (case postData e of
        None \<Rightarrow> []
      | Some pd \<Rightarrow> (case contents pd of None \<Rightarrow> [] | Some c \<Rightarrow> c))"

text \<open>
  Step 1 of \<open>doPost\<close>.  \<open>parse\<close> is the built-in \<open>JSON.parse\<close>, \<open>None\<close> when it
  throws; an absent or empty body is parsed as \<open>'{}'\<close>, which is the empty object.
\<close>

definition build_data :: "(jsstring \<Rightarrow> jsval option) \<Rightarrow> event \<Rightarrow> js_error + jsdata" where
  "build_data parse e =
     (if is_json e then
        (if body e = [] then Inr (Value (JObj []))
         else (case parse (body e) of
                 None \<Rightarrow> Inr (Built empty_object)
               | Some v \<Rightarrow> Inr (Value v)))
      else if has_params e then
        (case parameter e of
           None \<Rightarrow> Inr (Built empty_object)
         | Some ps \<Rightarrow>
             Inr (Built (copy_params ps (order_keys (map fst ps)) empty_object)))
      else if has_contents e then
        (case parseQueryString (body e) of
           Inl err \<Rightarrow> Inl err
         | Inr obj \<Rightarrow> Inr (Built obj))
      else Inr (Built empty_object))"

subsection \<open>Field order, header and row\<close>

definition field_order_key :: jsstring where
  "field_order_key = str ''_field_order''"

text \<open>
  \<open>String(hint).split('|||').map(s => s.trim()).filter(Boolean)\<close>: the labels of an
  order hint.
\<close>

definition labels :: "jsstring \<Rightarrow> jsstring list" where
  "labels h = filter (\<lambda>s. s \<noteq> []) (map trim (split (str ''|||'') h))"

text \<open>
  Step 2: the field order and the data without the order hint.  The hint is used when it is
  truthy; otherwise the keys of the data, as they are, give the order.
\<close>

definition extract_order :: "jsdata \<Rightarrow> js_error + (jsstring list \<times> jsdata)" where
  "extract_order data =
     (case get_prop data field_order_key of
        Inl e \<Rightarrow> Inl e
      | Inr hint \<Rightarrow>
          (if truthy hint then
             (case to_string hint of
                Inl e \<Rightarrow> Inl e
              | Inr h \<Rightarrow> Inr (labels h, delete_prop data field_order_key))
           else
             (case object_keys data of
                Inl e \<Rightarrow> Inl e
              | Inr ks \<Rightarrow> Inr (ks, data))))"

text \<open>Step 3: \<open>headers\<close>, and \<open>row\<close> with the time stamp first.\<close>

definition build_headers :: "jsstring list \<Rightarrow> jsstring list" where
  "build_headers fieldOrder = str ''Timestamp'' # fieldOrder"

definition cell_value :: "jsdata \<Rightarrow> jsstring \<Rightarrow> js_error + jsstring" where
  "cell_value data key =
     (case get_prop data key of
        Inl e \<Rightarrow> Inl e
      | Inr v \<Rightarrow> normalizeValue v)"

fun row_values :: "jsdata \<Rightarrow> jsstring list \<Rightarrow> js_error + jsstring list" where
  "row_values data [] = Inr []"
| "row_values data (key # ks) =
     (case cell_value data key of
        Inl e \<Rightarrow> Inl e
      | Inr c \<Rightarrow>
          (case row_values data ks of
             Inl e \<Rightarrow> Inl e
           | Inr cs \<Rightarrow> Inr (c # cs)))"

definition build_row :: "jsstring \<Rightarrow> jsdata \<Rightarrow> jsstring list \<Rightarrow> js_error + jsstring list" where
  "build_row now data fieldOrder =
     (case row_values data fieldOrder of
        Inl e \<Rightarrow> Inl e
      | Inr cs \<Rightarrow> Inr (now # cs))"

text \<open>
  Steps 1 to 3 together: the header and the row a request produces, or the error thrown
  on the way.  \<open>now\<close> is \<open>new Date().toISOString()\<close>.
\<close>

definition header_and_row ::
  "(jsstring \<Rightarrow> jsval option) \<Rightarrow> jsstring \<Rightarrow> event
     \<Rightarrow> js_error + (jsstring list \<times> jsstring list)" where
  "header_and_row parse now e =
     (case build_data parse e of
        Inl err \<Rightarrow> Inl err
      | Inr data \<Rightarrow>
          (case extract_order data of
             Inl err \<Rightarrow> Inl err
           | Inr (fieldOrder, data') \<Rightarrow>
               (case build_row now data' fieldOrder of
                  Inl err \<Rightarrow> Inl err
                | Inr row \<Rightarrow> Inr (build_headers fieldOrder, row))))"

subsection \<open>The sheet and the mail service\<close>

text \<open>
  The sheet is a grid of cells, rows of text; a cell outside the stored rows is empty, as is
  a cell holding the empty string.  \<open>max_columns\<close> is the width of the grid.  The calls
  the handler makes follow the documented behaviour of the spreadsheet service:
  \<open>getLastColumn\<close> and \<open>getLastRow\<close> are the last column and row with content,
  \<open>insertColumnsAfter\<close> widens the grid and moves the cells to the right of the given
  column, \<open>getRange(1, 1, 1, n).setValues\<close> writes the first \<open>n\<close> cells of row 1, and
  \<open>appendRow\<close> writes below the last row with content.
\<close>

type_synonym grid = "jsstring list list"

record world =
  grid :: grid
  max_columns :: nat
  outbox :: "jsstring list"

definition cell :: "grid \<Rightarrow> nat \<Rightarrow> nat \<Rightarrow> jsstring" where
  "cell g r c = (if r < length g \<and> c < length (g ! r) then g ! r ! c else [])"

definition content_width :: "jsstring list \<Rightarrow> nat" where
  "content_width r = length (rev (dropWhile (\<lambda>c. c = []) (rev r)))"

definition getLastColumn :: "grid \<Rightarrow> nat" where
  "getLastColumn g = foldr max (map content_width g) 0"

definition getLastRow :: "grid \<Rightarrow> nat" where
  "getLastRow g = length (rev (dropWhile (\<lambda>r. content_width r = 0) (rev g)))"

definition insertColumnsAfter :: "nat \<Rightarrow> nat \<Rightarrow> grid \<Rightarrow> grid" where
  "insertColumnsAfter p n g = map (\<lambda>r. take p r @ replicate n [] @ drop p r) g"

definition setHeaderValues :: "jsstring list \<Rightarrow> grid \<Rightarrow> grid" where
  "setHeaderValues hs g =
     (case g of
        [] \<Rightarrow> [hs]
      | r # rs \<Rightarrow> (hs @ drop (length hs) r) # rs)"

definition appendRow :: "jsstring list \<Rightarrow> grid \<Rightarrow> grid" where
  "appendRow row g = take (getLastRow g) g @ [row]"

text \<open>
  Each call of a platform service may throw; \<open>faults\<close> gives the message of the exception
  a call throws, \<open>None\<close> when it succeeds.
\<close>

datatype service_call = OpenSheet | InsertColumns | WriteHeader | AppendRow | SendEmail

type_synonym faults = "service_call \<Rightarrow> jsstring option"

text \<open>Steps 4 and 5.  The state reached is returned also when a call throws.\<close>

definition ensure_columns :: "faults \<Rightarrow> jsstring list \<Rightarrow> world \<Rightarrow> (js_error + unit) \<times> world" where
  "ensure_columns f headers w =
     (if getLastColumn (grid w) < length headers then
        (case f InsertColumns of
           Some m \<Rightarrow> (Inl (ServiceError m), w)
         | None \<Rightarrow>
             (Inr (),
              w\<lparr>grid :=
                   insertColumnsAfter
                     (if getLastColumn (grid w) = 0 then 1 else getLastColumn (grid w))
                     (length headers - getLastColumn (grid w)) (grid w),
                 max_columns := max_columns w + (length headers - getLastColumn (grid w))\<rparr>))
      else (Inr (), w))"

definition write_header :: "faults \<Rightarrow> jsstring list \<Rightarrow> world \<Rightarrow> (js_error + unit) \<times> world" where
  "write_header f headers w =
     (case f WriteHeader of
        Some m \<Rightarrow> (Inl (ServiceError m), w)
      | None \<Rightarrow> (Inr (), w\<lparr>grid := setHeaderValues headers (grid w)\<rparr>))"

definition append_record :: "faults \<Rightarrow> jsstring list \<Rightarrow> world \<Rightarrow> (js_error + unit) \<times> world" where
  "append_record f row w =
     (case f AppendRow of
        Some m \<Rightarrow> (Inl (ServiceError m), w)
      | None \<Rightarrow> (Inr (), w\<lparr>grid := appendRow row (grid w)\<rparr>))"

definition persist ::
  "faults \<Rightarrow> jsstring list \<Rightarrow> jsstring list \<Rightarrow> world \<Rightarrow> (js_error + unit) \<times> world" where
  "persist f headers row w =
     (case f OpenSheet of
        Some m \<Rightarrow> (Inl (ServiceError m), w)
      | None \<Rightarrow>
          (case ensure_columns f headers w of
             (Inl e, w1) \<Rightarrow> (Inl e, w1)
           | (Inr u, w1) \<Rightarrow>
               (case write_header f headers w1 of
                  (Inl e, w2) \<Rightarrow> (Inl e, w2)
                | (Inr u, w2) \<Rightarrow> append_record f row w2)))"

text \<open>
  Step 6: the body of the notification pairs each header with its cell,
  \<open>`${h}:\n${row[i] || ''}`\<close>, the pairs separated by an empty line.
\<close>

definition mail_body :: "jsstring list \<Rightarrow> jsstring list \<Rightarrow> jsstring" where
  "mail_body headers row =
     join [0xA, 0xA]
       (map (\<lambda>i. headers ! i @ str '':'' @ [0xA] @ (if i < length row then row ! i else []))
          [0..<length headers])"

definition notify ::
  "faults \<Rightarrow> jsstring list \<Rightarrow> jsstring list \<Rightarrow> world \<Rightarrow> (js_error + unit) \<times> world" where
  "notify f headers row w =
     (case f SendEmail of
        Some m \<Rightarrow> (Inl (ServiceError m), w)
      | None \<Rightarrow> (Inr (), w\<lparr>outbox := outbox w @ [mail_body headers row]\<rparr>))"

subsection \<open>doPost\<close>

text \<open>The object the handler serialises into its response.\<close>

datatype response = StatusSuccess | StatusError jsstring

text \<open>The body of the \<open>try\<close> block: every step in order, stopping at the first throw.\<close>

definition try_block ::
  "(jsstring \<Rightarrow> jsval option) \<Rightarrow> jsstring \<Rightarrow> faults \<Rightarrow> event \<Rightarrow> world
     \<Rightarrow> (js_error + unit) \<times> world" where
  "try_block parse now f e w =
     (case header_and_row parse now e of
        Inl err \<Rightarrow> (Inl err, w)
      | Inr (headers, row) \<Rightarrow>
          (case persist f headers row w of
             (Inl err, w1) \<Rightarrow> (Inl err, w1)
           | (Inr u, w1) \<Rightarrow> notify f headers row w1))"

definition doPost ::
  "(jsstring \<Rightarrow> jsval option) \<Rightarrow> jsstring \<Rightarrow> faults \<Rightarrow> event \<Rightarrow> world
     \<Rightarrow> response \<times> world" where
  "doPost parse now f e w =
     (case try_block parse now f e w of
        (Inr u, w') \<Rightarrow> (StatusSuccess, w')
      | (Inl err, w') \<Rightarrow> (StatusError (message err), w'))"

section \<open>The contact form of the page\<close>

text \<open>
  What the submit handler of \<open>script.js\<close> reads and writes: the label and the
  \<open>disabled\<close> flag of the button, the values of the form fields (\<open>reset\<close> puts the
  defaults back), the class \<open>visible\<close> of the success indicator, the alerts shown, the
  errors logged, and the timers set.  Time is counted in milliseconds:
  \<open>setTimeout(f, d)\<close> makes \<open>f\<close> due \<open>d\<close> later, and a timer that is due runs
  as soon as the event loop is free, which it is not while a handler runs or an alert is
  open.
\<close>

datatype timer_action =
    RestoreAfterSuccess jsstring
  | RestoreAfterFailure jsstring

record page =
  button_label :: jsstring
  button_disabled :: bool
  field_values :: "jsstring list"
  field_defaults :: "jsstring list"
  success_visible :: bool
  alerts :: "jsstring list"
  console_errors :: "jsstring list"
  timers :: "(nat \<times> timer_action) list"
  clock :: nat

text \<open>What \<open>await fetch(...)\<close> yields: a response with its \<open>ok\<close> flag, or a rejection.\<close>

datatype fetch_result = Response bool | NetworkError

text \<open>The two timer callbacks.  The first one runs only where \<open>formSuccess\<close> exists.\<close>

fun run_action :: "timer_action \<Rightarrow> page \<Rightarrow> page" where
  "run_action (RestoreAfterSuccess originalText) pg =
     pg\<lparr>button_label := originalText, button_disabled := False, success_visible := False\<rparr>"
| "run_action (RestoreAfterFailure originalText) pg =
     pg\<lparr>button_label := originalText, button_disabled := False\<rparr>"

definition setTimeout :: "timer_action \<Rightarrow> nat \<Rightarrow> page \<Rightarrow> page" where
  "setTimeout a d pg = pg\<lparr>timers := timers pg @ [(clock pg + d, a)]\<rparr>"

text \<open>
  Letting \<open>d\<close> milliseconds pass: the timers due by then run, earliest first (in the order
  they were set when due together), and leave the list.
\<close>

definition due_timers :: "nat \<Rightarrow> (nat \<times> timer_action) list \<Rightarrow> (nat \<times> timer_action) list" where
  "due_timers t ts = sort_key fst (filter (\<lambda>(due, a). due \<le> t) ts)"

definition advance :: "nat \<Rightarrow> page \<Rightarrow> page" where
  "advance d pg =
     fold (\<lambda>(due, a). run_action a)
       (due_timers (clock pg + d) (timers pg))
       (pg\<lparr>timers := filter (\<lambda>(due, a). \<not> due \<le> clock pg + d) (timers pg),
           clock := clock pg + d\<rparr>)"

text \<open>
  The \<open>catch\<close> block.  The timer is set first; \<open>alert\<close> then blocks until the user
  dismisses the dialog, \<open>dismiss\<close> milliseconds later: the time passes and no timer runs
  meanwhile.
\<close>

definition on_failure :: "jsstring \<Rightarrow> jsstring \<Rightarrow> nat \<Rightarrow> page \<Rightarrow> page" where
  "on_failure originalText err dismiss pg =
     (setTimeout (RestoreAfterFailure originalText) 3000
        (pg\<lparr>console_errors := console_errors pg @ [err],
            button_label := str ''Error''\<rparr>))
     \<lparr>alerts := alerts pg @
        [str ''Something went wrong. Please try again later or email us directly.''],
      clock := clock pg + dismiss\<rparr>"

text \<open>
  The handler after \<open>await fetch\<close>.  \<open>has_indicator\<close> tells whether the element
  \<open>formSuccess\<close> exists; without it \<open>formSuccess.classList\<close> throws, after the label
  has been set and the form reset, and the \<open>catch\<close> block runs.
\<close>

definition after_fetch ::
  "bool \<Rightarrow> jsstring \<Rightarrow> fetch_result \<Rightarrow> nat \<Rightarrow> page \<Rightarrow> page" where
  "after_fetch has_indicator originalText r dismiss pg =
     (case r of
        Response True \<Rightarrow>
          (let pg1 = pg\<lparr>button_label := str ''Message Sent'',
                         field_values := field_defaults pg\<rparr>
           in if has_indicator then
                setTimeout (RestoreAfterSuccess originalText) 4000
                  (pg1\<lparr>success_visible := True\<rparr>)
              else
                on_failure originalText
                  (str ''Cannot read properties of null (reading 'classList')'') dismiss pg1)
      | Response False \<Rightarrow>
          on_failure originalText (str ''Form submission failed'') dismiss pg
      | NetworkError \<Rightarrow> on_failure originalText (str ''Failed to fetch'') dismiss pg)"

text \<open>
  The whole handler for a form with a button: the request takes \<open>latency\<close> milliseconds
  and ends in \<open>r\<close>; an alert, if one is shown, stays open for \<open>dismiss\<close> milliseconds.
\<close>

definition submit :: "bool \<Rightarrow> fetch_result \<Rightarrow> nat \<Rightarrow> nat \<Rightarrow> page \<Rightarrow> page" where
  "submit has_indicator r latency dismiss pg =
     after_fetch has_indicator (button_label pg) r dismiss
       (advance latency (pg\<lparr>button_label := str ''Sending...'', button_disabled := True\<rparr>))"

section \<open>The fields of a raw body\<close>

text \<open>
  What the specification says of the raw form, to compare \<open>parseQueryString\<close> with: the
  body is a sequence of fields, each a decoded key with a decoded value (\<open>fields\<close>), and
  the values of a key are gathered in the order in which they occur, a single value as a
  string, several as a list (\<open>gathered\<close>).
\<close>

definition gathered :: "jsstring list \<Rightarrow> jsval" where
  "gathered vs =
     (case vs of
        [] \<Rightarrow> JUndefined
      | [v] \<Rightarrow> JStr v
      | _ \<Rightarrow> JArr (map JStr vs))"

definition values_of :: "jsstring \<Rightarrow> (jsstring \<times> jsstring) list \<Rightarrow> jsstring list" where
  "values_of k kvs = map snd (filter (\<lambda>(k', v). k' = k) kvs)"

fun fields :: "jsstring list \<Rightarrow> js_error + (jsstring \<times> jsstring) list" where
  "fields [] = Inr []"
| "fields (pair # pairs) =
     (if pair = [] then fields pairs
      else
        (case split (str ''='') pair of
           [] \<Rightarrow> Inl undefined_replace
         | first # parts \<Rightarrow>
             (case decodeURIComponent (replace_plus first) of
                Inl e \<Rightarrow> Inl e
              | Inr k \<Rightarrow>
                  (case decodeURIComponent (replace_plus (join (str ''='') parts)) of
                     Inl e \<Rightarrow> Inl e
                   | Inr v \<Rightarrow>
                       (case fields pairs of
                          Inl e \<Rightarrow> Inl e
                        | Inr kvs \<Rightarrow> Inr ((k, v) # kvs))))))"

text \<open>The own properties \<open>ps\<close> hold exactly the gathered values of the fields \<open>kvs\<close>.\<close>

definition holds :: "(jsstring \<times> jsval) list \<Rightarrow> (jsstring \<times> jsstring) list \<Rightarrow> bool" where
  "holds ps kvs \<longleftrightarrow>
     (\<forall>k. map_of ps k = (if values_of k kvs = [] then None else Some (gathered (values_of k kvs))))"

text \<open>The three branches by which \<open>parse_pair\<close> stores a decoded value.\<close>

definition add_value :: "jsobject \<Rightarrow> jsstring \<Rightarrow> jsstring \<Rightarrow> jsobject" where
  "add_value obj k v =
     (case read_prop obj k of
        JUndefined \<Rightarrow> set_prop obj k (JStr v)
      | JArr xs \<Rightarrow> push_prop obj k (JStr v)
      | x \<Rightarrow> set_prop obj k (JArr [x, JStr v]))"

section \<open>What the response reports\<close>

text \<open>
  The service calls the handler makes for a header, in order, and the message of the first
  one that throws.  Columns are inserted only when the sheet has content in fewer columns
  than the header is long.
\<close>

definition calls_made :: "jsstring list \<Rightarrow> world \<Rightarrow> service_call list" where
  "calls_made headers w =
     [OpenSheet]
     @ (if getLastColumn (grid w) < length headers then [InsertColumns] else [])
     @ [WriteHeader, AppendRow, SendEmail]"

fun first_fault :: "faults \<Rightarrow> service_call list \<Rightarrow> jsstring option" where
  "first_fault f [] = None"
| "first_fault f (c # cs) = (case f c of Some m \<Rightarrow> Some m | None \<Rightarrow> first_fault f cs)"

section \<open>Evaluation of the built-in tables\<close>

lemma in_object_prototype_field_order: "in_object_prototype field_order_key = None"
  by code_simp

lemma read_empty_field_order: "read_prop empty_object field_order_key = JUndefined"
  by code_simp

lemma timestamp_not_empty: "str ''Timestamp'' \<noteq> []"
  by (simp add: str_def)

section \<open>The round trip of the documented example\<close>

lemma parse_example:
  "parseQueryString
     (str ''Name=John+Doe&Email=john%40example.com&_field_order=Name|||Email'') =
   Inr (Obj [(str ''Name'', JStr (str ''John Doe'')),
             (str ''Email'', JStr (str ''john@example.com'')),
             (str ''_field_order'', JStr (str ''Name|||Email''))] (JPrototype ObjectPrototype))"
  by code_simp

lemma order_example:
  "extract_order
     (Built (Obj [(str ''Name'', JStr (str ''John Doe'')),
                  (str ''Email'', JStr (str ''john@example.com'')),
                  (str ''_field_order'', JStr (str ''Name|||Email''))] (JPrototype ObjectPrototype))) =
   Inr ([str ''Name'', str ''Email''],
        Built (Obj [(str ''Name'', JStr (str ''John Doe'')),
                    (str ''Email'', JStr (str ''john@example.com''))] (JPrototype ObjectPrototype)))"
  by code_simp

lemma row_example:
  "row_values
     (Built (Obj [(str ''Name'', JStr (str ''John Doe'')),
                  (str ''Email'', JStr (str ''john@example.com''))] (JPrototype ObjectPrototype)))
     [str ''Name'', str ''Email''] =
   Inr [str ''John Doe'', str ''john@example.com'']"
  by code_simp

lemma body_contents:
  assumes "postData e = Some pd" and "contents pd = Some c"
  shows "body e = c" and "has_contents e \<longleftrightarrow> c \<noteq> []"
  using assms by (simp_all add: body_def has_contents_def)

text \<open>
  Claim C3.  A request that carries the body
  \<open>Name=John+Doe&Email=john%40example.com&_field_order=Name|||Email\<close>, has no JSON
  content type and no pre-parsed parameters, produces the header
  \<open>["Timestamp", "Name", "Email"]\<close> and the row
  \<open>[now, "John Doe", "john@example.com"]\<close>, whatever the time stamp \<open>now\<close> is.
\<close>

theorem round_trip_example:
  assumes "\<not> is_json e" and "\<not> has_params e"
    and "postData e = Some pd"
    and "contents pd =
           Some (str ''Name=John+Doe&Email=john%40example.com&_field_order=Name|||Email'')"
  shows "header_and_row parse now e =
           Inr ([str ''Timestamp'', str ''Name'', str ''Email''],
                [now, str ''John Doe'', str ''john@example.com''])"
proof -
  let ?b = "str ''Name=John+Doe&Email=john%40example.com&_field_order=Name|||Email''"
  have b: "body e = ?b"
    using assms(3,4) by (rule body_contents)
  have "?b \<noteq> []"
    by (simp add: str_def)
  then have c: "has_contents e"
    using body_contents(2)[OF assms(3,4)] by simp
  have "build_data parse e =
          Inr (Built (Obj [(str ''Name'', JStr (str ''John Doe'')),
                           (str ''Email'', JStr (str ''john@example.com'')),
                           (str ''_field_order'', JStr (str ''Name|||Email''))]
                        (JPrototype ObjectPrototype)))"
    using assms(1,2) b c by (simp add: build_data_def parse_example)
  then show ?thesis
    by (simp add: header_and_row_def order_example build_row_def row_example
        build_headers_def del: row_values.simps)
qed

theorem round_trip_example_witness:
  "\<not> is_json \<lparr>postData = Some \<lparr>ptype = Some (str ''application/x-www-form-urlencoded''),
        contents = Some (str ''Name=John+Doe&Email=john%40example.com&_field_order=Name|||Email'')\<rparr>,
        parameter = None\<rparr>
   \<and> \<not> has_params \<lparr>postData = Some \<lparr>ptype = Some (str ''application/x-www-form-urlencoded''),
        contents = Some (str ''Name=John+Doe&Email=john%40example.com&_field_order=Name|||Email'')\<rparr>,
        parameter = None\<rparr>
   \<and> header_and_row (\<lambda>s. None) (str ''2024-05-01T10:00:00.000Z'')
        \<lparr>postData = Some \<lparr>ptype = Some (str ''application/x-www-form-urlencoded''),
        contents = Some (str ''Name=John+Doe&Email=john%40example.com&_field_order=Name|||Email'')\<rparr>,
        parameter = None\<rparr> =
       Inr ([str ''Timestamp'', str ''Name'', str ''Email''],
            [str ''2024-05-01T10:00:00.000Z'', str ''John Doe'', str ''john@example.com''])"
proof -
  let ?pd = "\<lparr>ptype = Some (str ''application/x-www-form-urlencoded''),
        contents = Some (str ''Name=John+Doe&Email=john%40example.com&_field_order=Name|||Email'')\<rparr>"
  let ?e = "\<lparr>postData = Some ?pd, parameter = None\<rparr>"
  have j: "\<not> is_json ?e"
    by (simp add: is_json_def str_def)
  have p: "\<not> has_params ?e"
    by (simp add: has_params_def)
  show ?thesis
    using j p round_trip_example [of ?e ?pd "\<lambda>s. None" "str ''2024-05-01T10:00:00.000Z''"]
    by simp
qed

section \<open>A body that is not JSON\<close>

text \<open>
  Claim C5.  When the content type announces JSON and \<open>JSON.parse\<close> throws on the body,
  nothing is thrown further: the data are the empty object, the header is
  \<open>["Timestamp"]\<close> and the row holds the time stamp alone.
\<close>

theorem malformed_json_degrades:
  assumes "is_json e" and "body e \<noteq> []" and "parse (body e) = None"
  shows "build_data parse e = Inr (Built empty_object)
         \<and> header_and_row parse now e = Inr ([str ''Timestamp''], [now])"
proof -
  have d: "build_data parse e = Inr (Built empty_object)"
    using assms by (simp add: build_data_def)
  have k: "object_keys (Built empty_object) = Inr []"
    by (simp add: empty_object_def order_keys_def)
  have "extract_order (Built empty_object) = Inr ([], Built empty_object)"
    by (simp add: extract_order_def read_empty_field_order k)
  with d show ?thesis
    by (simp add: header_and_row_def build_row_def build_headers_def)
qed

theorem malformed_json_degrades_witness:
  "header_and_row (\<lambda>s. if s = str ''{}'' then Some (JObj []) else None)
     (str ''2024-05-01T10:00:00.000Z'')
     \<lparr>postData = Some \<lparr>ptype = Some (str ''application/json''),
                          contents = Some (str ''{'')\<rparr>,
      parameter = None\<rparr> =
   Inr ([str ''Timestamp''], [str ''2024-05-01T10:00:00.000Z''])"
proof -
  let ?e = "\<lparr>postData = Some \<lparr>ptype = Some (str ''application/json''),
                          contents = Some (str ''{'')\<rparr>,
      parameter = None\<rparr>"
  let ?parse = "\<lambda>s. if s = str ''{}'' then Some (JObj []) else None"
  have j: "is_json ?e"
    by (simp add: is_json_def str_def)
  have b: "body ?e \<noteq> []"
    by (simp add: body_def str_def)
  have n: "?parse (body ?e) = None"
    by (simp add: body_def str_def)
  show ?thesis
    using malformed_json_degrades [OF j b, of ?parse, OF n] by simp
qed

section \<open>The header follows the order hint\<close>
















section \<open>The order hint in the output\<close>

text \<open>
  Claim C1 does not hold of the code.  The hint is removed only when it is truthy: with an
  empty hint, as in the body \<open>Name=Al&_field_order=\<close>, the handler falls back to the
  keys of the data, \<open>_field_order\<close> among them, so the header carries the label
  \<open>_field_order\<close> and the row a cell for it.
\<close>

theorem empty_hint_reaches_header:
  "header_and_row (\<lambda>s. None) (str ''2024-05-01T10:00:00.000Z'')
     \<lparr>postData = Some \<lparr>ptype = Some (str ''application/x-www-form-urlencoded''),
                          contents = Some (str ''Name=Al&_field_order='')\<rparr>,
      parameter = None\<rparr> =
   Inr ([str ''Timestamp'', str ''Name'', str ''_field_order''],
        [str ''2024-05-01T10:00:00.000Z'', str ''Al'', []])"
  by code_simp

text \<open>
  With a truthy hint the property is deleted before the row is read: a label
  \<open>_field_order\<close> then reads \<open>undefined\<close> and gives an empty cell.
\<close>

lemma deleted_hint_reads_undefined:
  "get_prop (delete_prop (Built (Obj ps (JPrototype ObjectPrototype))) field_order_key) field_order_key
     = Inr JUndefined"
proof -
  have "map_of (remove_key field_order_key ps) field_order_key = None"
    by (induction ps) (auto simp: remove_key_def)
  then show ?thesis
    by (simp add: find_prop_val_def in_object_prototype_field_order)
qed

text \<open>With a truthy hint the header holds the label only if the hint lists it.\<close>

lemma hint_label_only_if_listed:
  "field_order_key \<in> set (build_headers (labels h)) \<longleftrightarrow> field_order_key \<in> set (labels h)"
  by (simp add: build_headers_def field_order_key_def str_def)

section \<open>The cells of the row\<close>

text \<open>The row has one cell for the time stamp and one for each label, in order.\<close>

lemma row_values_length: "row_values data ks = Inr cs \<Longrightarrow> length cs = length ks"
  by (induction ks arbitrary: cs) (auto split: sum.splits)

lemma build_row_length: "build_row now data ks = Inr row \<Longrightarrow> length row = Suc (length ks)"
  by (auto simp: build_row_def split: sum.splits dest: row_values_length)

lemma normalizeValue_nullish:
  "normalizeValue JUndefined = Inr []" "normalizeValue JNull = Inr []"
  by (simp_all add: normalizeValue_def)

lemma normalizeValue_array: "normalizeValue (JArr xs) = array_join (str '', '') xs"
  by (simp add: normalizeValue_def)

lemma normalizeValue_other:
  "v \<noteq> JNull \<Longrightarrow> v \<noteq> JUndefined \<Longrightarrow> \<forall>xs. v \<noteq> JArr xs \<Longrightarrow> normalizeValue v = to_string v"
  by (cases v) (simp_all add: normalizeValue_def)

text \<open>
  A label that is no own property of the data and no property of \<open>Object.prototype\<close>
  gives an empty cell.
\<close>

lemma absent_label_empty_cell:
  assumes "map_of ps k = None" and "in_object_prototype k = None"
  shows "cell_value (Built (Obj ps (JPrototype ObjectPrototype))) k = Inr []"
  using assms by (simp add: cell_value_def find_prop_val_def normalizeValue_def)

text \<open>
  Claim C4 does not hold of the code for a label that names a property every object
  inherits.  The cell is read with \<open>data[key]\<close>, which follows the prototype chain: the
  label \<open>constructor\<close>, absent from the data, yields the text of the function
  \<open>Object\<close> instead of an empty cell.
\<close>

theorem inherited_label_fills_cell:
  "header_and_row (\<lambda>s. None) (str ''2024-05-01T10:00:00.000Z'')
     \<lparr>postData = Some \<lparr>ptype = Some (str ''application/x-www-form-urlencoded''),
                          contents = Some (str ''Name=Al&_field_order=Name|||constructor'')\<rparr>,
      parameter = None\<rparr> =
   Inr ([str ''Timestamp'', str ''Name'', str ''constructor''],
        [str ''2024-05-01T10:00:00.000Z'', str ''Al'',
         str ''function Object() { [native code] }''])"
  by code_simp

section \<open>The three forms of the body\<close>

text \<open>The priority of the three forms, as \<open>build_data\<close> has it.\<close>

lemma json_form_first:
  "is_json e \<Longrightarrow>
     build_data parse e =
       Inr (if body e = [] then Value (JObj [])
            else (case parse (body e) of None \<Rightarrow> Built empty_object | Some v \<Rightarrow> Value v))"
  by (simp add: build_data_def split: option.splits)

lemma parameters_form_second:
  "\<not> is_json e \<Longrightarrow> parameter e = Some ps \<Longrightarrow> ps \<noteq> [] \<Longrightarrow>
     build_data parse e = Inr (Built (copy_params ps (order_keys (map fst ps)) empty_object))"
  by (simp add: build_data_def has_params_def)

lemma raw_form_last:
  "\<not> is_json e \<Longrightarrow> \<not> has_params e \<Longrightarrow> has_contents e \<Longrightarrow>
     build_data parse e =
       (case parseQueryString (body e) of Inl err \<Rightarrow> Inl err | Inr obj \<Rightarrow> Inr (Built obj))"
  by (simp add: build_data_def)

lemma no_form:
  "\<not> is_json e \<Longrightarrow> \<not> has_params e \<Longrightarrow> \<not> has_contents e \<Longrightarrow>
     build_data parse e = Inr (Built empty_object)"
  by (simp add: build_data_def)

lemma first_value_taken:
  "first_value (Multi (v # vs)) = JStr v" "first_value (Single v) = JStr v"
  by simp_all

text \<open>A key that is repeated, and is not inherited, gathers its values in order.\<close>

lemma repeated_key_example:
  "parseQueryString (str ''a=1&b=x&a=2&a=3'') =
   Inr (Obj [(str ''a'', JArr [JStr (str ''1''), JStr (str ''2''), JStr (str ''3'')]),
             (str ''b'', JStr (str ''x''))] (JPrototype ObjectPrototype))"
  by code_simp

text \<open>
  For keys that no object inherits, \<open>parseQueryString\<close> does what the specification
  says: each key reads as its gathered values.
\<close>

lemma map_of_assign:
  "map_of (assign k y ps) k' = (if k' = k \<and> k \<in> fst ` set ps then Some y else map_of ps k')"
proof (induction ps)
  case Nil
  then show ?case by (simp add: assign_def)
next
  case (Cons p ps)
  obtain k0 x0 where p: "p = (k0, x0)" by (cases p)
  have step: "assign k y ((k0, x0) # ps) = (if k0 = k then (k0, y) else (k0, x0)) # assign k y ps"
    by (simp add: assign_def)
  show ?case
    unfolding p step using Cons.IH
    by (cases "k0 = k"; cases "k' = k"; cases "k \<in> fst ` set ps") simp_all
qed

lemma gathered_snoc:
  "gathered (vs @ [v]) =
     (case gathered vs of
        JUndefined \<Rightarrow> JStr v
      | JArr xs \<Rightarrow> JArr (xs @ [JStr v])
      | x \<Rightarrow> JArr [x, JStr v])"
proof (cases vs)
  case Nil
  then show ?thesis by (simp add: gathered_def)
next
  case (Cons a as)
  then show ?thesis by (cases as) (simp_all add: gathered_def)
qed

lemma gathered_shape:
  "gathered vs = JUndefined \<or> (\<exists>x. gathered vs = JStr x) \<or> (\<exists>xs. gathered vs = JArr xs)"
  by (cases vs; cases "tl vs") (auto simp: gathered_def split: list.splits)

lemma gathered_undefined: "gathered vs = JUndefined \<longleftrightarrow> vs = []"
  by (auto simp: gathered_def split: list.splits)

lemma add_value_holds:
  assumes h: "holds ps kvs" and k: "in_object_prototype k = None"
  shows "\<exists>ps'. add_value (Obj ps (JPrototype ObjectPrototype)) k v
                 = Obj ps' (JPrototype ObjectPrototype)
               \<and> holds ps' (kvs @ [(k, v)])"
proof -
  let ?vs = "values_of k kvs"
  let ?obj = "Obj ps (JPrototype ObjectPrototype)"
  have f: "find_prop_val (JPrototype ObjectPrototype) k = None"
    using k by (simp add: find_prop_val_def)
  have vo: "values_of k' (kvs @ [(k, v)]) = (if k' = k then values_of k kvs @ [v] else values_of k' kvs)" for k'
    by (simp add: values_of_def)
  show ?thesis
  proof (cases "?vs = []")
    case True
    then have m: "map_of ps k = None"
      using h by (simp add: holds_def)
    then have nk: "k \<notin> fst ` set ps"
      by (simp add: map_of_eq_None_iff)
    have "add_value ?obj k v = Obj (ps @ [(k, JStr v)]) (JPrototype ObjectPrototype)"
      using m nk f by (simp add: add_value_def)
    moreover have "holds (ps @ [(k, JStr v)]) (kvs @ [(k, v)])"
      using h True m unfolding holds_def vo
      by (auto simp: map_add_def gathered_def split: option.splits)
    ultimately show ?thesis by blast
  next
    case False
    then have m: "map_of ps k = Some (gathered ?vs)"
      using h by (simp add: holds_def)
    then have ik: "k \<in> fst ` set ps"
      by (metis map_of_eq_None_iff option.distinct(1))
    have nu: "gathered ?vs \<noteq> JUndefined"
      using False by (simp add: gathered_undefined)
    have "add_value ?obj k v
            = Obj (assign k (gathered (?vs @ [v])) ps) (JPrototype ObjectPrototype)"
    proof -
      consider x where "gathered ?vs = JStr x" | xs where "gathered ?vs = JArr xs"
        using gathered_shape[of ?vs] nu by blast
      then show ?thesis
      proof cases
        case 1
        then show ?thesis
          using m ik by (simp add: add_value_def gathered_snoc)
      next
        case 2
        then show ?thesis
          using m ik by (simp add: add_value_def gathered_snoc)
      qed
    qed
    moreover have "holds (assign k (gathered (?vs @ [v])) ps) (kvs @ [(k, v)])"
      using h ik False unfolding holds_def vo
      by (auto simp: map_of_assign)
    ultimately show ?thesis by blast
  qed
qed

lemma parse_pair_add_value:
  assumes "pair \<noteq> []" and "split (str ''='') pair = first # parts"
    and "decodeURIComponent (replace_plus first) = Inr k"
    and "decodeURIComponent (replace_plus (join (str ''='') parts)) = Inr v"
  shows "parse_pair obj pair = Inr (add_value obj k v)"
  using assms by (simp add: parse_pair_def add_value_def split: jsval.splits)

lemma holds_empty: "holds [] []"
  by (simp add: holds_def values_of_def)

lemma parse_pairs_holds:
  assumes "fields pairs = Inr kvs"
    and "\<forall>(k, v) \<in> set kvs. in_object_prototype k = None"
    and "holds ps sofar"
  shows "\<exists>ps'. parse_pairs (Obj ps (JPrototype ObjectPrototype)) pairs
                 = Inr (Obj ps' (JPrototype ObjectPrototype))
               \<and> holds ps' (sofar @ kvs)"
  using assms
proof (induction pairs arbitrary: ps sofar kvs)
  case Nil
  then show ?case by simp
next
  case (Cons pair pairs)
  show ?case
  proof (cases "pair = []")
    case True
    then have "fields pairs = Inr kvs"
      using Cons.prems(1) by simp
    from Cons.IH[OF this Cons.prems(2,3)] True show ?thesis
      by (simp add: parse_pair_def)
  next
    case False
    from Cons.prems(1) False obtain first parts k v kvs' where
      s: "split (str ''='') pair = first # parts"
      and dk: "decodeURIComponent (replace_plus first) = Inr k"
      and dv: "decodeURIComponent (replace_plus (join (str ''='') parts)) = Inr v"
      and f: "fields pairs = Inr kvs'"
      and kvs: "kvs = (k, v) # kvs'"
      by (auto split: list.splits sum.splits)
    have pk: "in_object_prototype k = None"
      using Cons.prems(2) kvs by simp
    have rest: "\<forall>(k, v) \<in> set kvs'. in_object_prototype k = None"
      using Cons.prems(2) kvs by simp
    obtain ps1 where
      a: "add_value (Obj ps (JPrototype ObjectPrototype)) k v = Obj ps1 (JPrototype ObjectPrototype)"
      and h1: "holds ps1 (sofar @ [(k, v)])"
      using add_value_holds[OF Cons.prems(3) pk] by blast
    have p: "parse_pair (Obj ps (JPrototype ObjectPrototype)) pair
               = Inr (Obj ps1 (JPrototype ObjectPrototype))"
      using parse_pair_add_value[OF False s dk dv] a by simp
    from Cons.IH[OF f rest h1] p kvs show ?thesis
      by simp
  qed
qed

lemma gather_values:
  assumes "fields (split (str ''&'') qs) = Inr kvs"
    and "\<forall>(k, v) \<in> set kvs. in_object_prototype k = None"
    and "in_object_prototype key = None"
  shows "\<exists>obj. parseQueryString qs = Inr obj
               \<and> read_prop obj key = gathered (values_of key kvs)"
proof -
  obtain ps where
    p: "parseQueryString qs = Inr (Obj ps (JPrototype ObjectPrototype))"
    and h: "holds ps kvs"
    using parse_pairs_holds[OF assms(1,2) holds_empty]
    by (auto simp: parseQueryString_def empty_object_def)
  have "read_prop (Obj ps (JPrototype ObjectPrototype)) key = gathered (values_of key kvs)"
    using h assms(3)
    by (auto simp: holds_def find_prop_val_def gathered_def)
  with p show ?thesis by blast
qed

text \<open>
  Claim C6 does not hold of the code in its last part.  \<open>parseQueryString\<close> tests
  \<open>obj[k] === undefined\<close>, which follows the prototype chain: for a key that names a
  property every object inherits, here \<open>toString\<close>, the first value already meets the
  inherited function, and the list that gathers the values starts with that function.
\<close>

theorem inherited_key_gathers_function:
  "parseQueryString (str ''toString=a&toString=b'') =
   Inr (Obj [(str ''toString'',
              JArr [JFunction (str ''toString''), JStr (str ''a''), JStr (str ''b'')])]
          (JPrototype ObjectPrototype))"
  by code_simp

section \<open>The response\<close>

text \<open>
  Claim C7.  Every request gets a status object.  It is \<open>{status: "success"}\<close> when
  no step throws, that is when the header and the row are built and no service call made
  for them throws; otherwise it is \<open>{status: "error", message: m}\<close> with \<open>m\<close> the
  message of the first exception: the one thrown while the data were parsed and the row
  built, or the one of the first service call that throws.
\<close>

theorem response_reports_outcome:
  "fst (doPost parse now f e w) =
     (case header_and_row parse now e of
        Inl err \<Rightarrow> StatusError (message err)
      | Inr (headers, row) \<Rightarrow>
          (case first_fault f (calls_made headers w) of
             Some m \<Rightarrow> StatusError m
           | None \<Rightarrow> StatusSuccess))"
  by (auto simp: doPost_def try_block_def persist_def ensure_columns_def write_header_def
      append_record_def notify_def calls_made_def
      split: sum.splits option.splits prod.splits if_splits)

lemma small_request:
  "header_and_row (\<lambda>s. None) (str ''2024-05-01T10:00:00.000Z'')
     \<lparr>postData = Some \<lparr>ptype = None, contents = Some (str ''Name=Al&_field_order=Name'')\<rparr>,
      parameter = None\<rparr> =
   Inr ([str ''Timestamp'', str ''Name''], [str ''2024-05-01T10:00:00.000Z'', str ''Al''])"
  by code_simp

theorem response_reports_outcome_witness:
  "fst (doPost (\<lambda>s. None) (str ''2024-05-01T10:00:00.000Z'')
          (\<lambda>c. if c = AppendRow then Some (str ''Quota exceeded'') else None)
          \<lparr>postData = Some \<lparr>ptype = None,
             contents = Some (str ''Name=Al&_field_order=Name'')\<rparr>,
           parameter = None\<rparr>
          \<lparr>grid = [], max_columns = 26, outbox = []\<rparr>) =
   StatusError (str ''Quota exceeded'')"
  using response_reports_outcome
    [of "\<lambda>s. None" "str ''2024-05-01T10:00:00.000Z''"
        "\<lambda>c. if c = AppendRow then Some (str ''Quota exceeded'') else None"
        "\<lparr>postData = Some \<lparr>ptype = None,
             contents = Some (str ''Name=Al&_field_order=Name'')\<rparr>,
           parameter = None\<rparr>"
        "\<lparr>grid = [], max_columns = 26, outbox = []\<rparr>"]
  by (simp add: small_request calls_made_def getLastColumn_def)

text \<open>Two further instances: a body that cannot be decoded, and a mail service that throws.\<close>

lemma undecodable_body_reported:
  "fst (doPost (\<lambda>s. None) (str ''2024-05-01T10:00:00.000Z'') (\<lambda>c. None)
          \<lparr>postData = Some \<lparr>ptype = None, contents = Some (str ''Name=%E0%A4%A'')\<rparr>,
           parameter = None\<rparr>
          \<lparr>grid = [], max_columns = 26, outbox = []\<rparr>) =
   StatusError (str ''URI malformed'')"
  by code_simp

lemma mail_fault_reported:
  "doPost (\<lambda>s. None) (str ''2024-05-01T10:00:00.000Z'')
     (\<lambda>c. if c = SendEmail then Some (str ''Service invoked too many times'') else None)
     \<lparr>postData = Some \<lparr>ptype = None, contents = Some (str ''Name=Al&_field_order=Name'')\<rparr>,
      parameter = None\<rparr>
     \<lparr>grid = [], max_columns = 26, outbox = []\<rparr> =
   (StatusError (str ''Service invoked too many times''),
    \<lparr>grid = [[str ''Timestamp'', str ''Name''], [str ''2024-05-01T10:00:00.000Z'', str ''Al'']],
     max_columns = 28, outbox = []\<rparr>)"
  by code_simp

section \<open>The submit control\<close>

lemma advance_idle:
  "timers pg = [] \<Longrightarrow> advance d pg = pg\<lparr>clock := clock pg + d\<rparr>"
  by (simp add: advance_def due_timers_def)

text \<open>
  Claim C9 as stated says that after a failure the control is restored within 3 seconds.
  The alert is opened after the timer has been set and blocks until it is dismissed: with
  a response without the \<open>ok\<close> flag that arrives at 250 ms and an alert left open for
  5 seconds, the handler ends at 5250 ms, 5 seconds after the failure, and the button is
  still disabled and still shows \<open>Error\<close>.
\<close>

theorem alert_delays_restore:
  "clock (submit True (Response False) 250 5000
      \<lparr>button_label = str ''Send Message'', button_disabled = False,
       field_values = [str ''Hello''], field_defaults = [[]], success_visible = False,
       alerts = [], console_errors = [], timers = [], clock = 0\<rparr>) = 5250
   \<and> button_disabled (submit True (Response False) 250 5000
      \<lparr>button_label = str ''Send Message'', button_disabled = False,
       field_values = [str ''Hello''], field_defaults = [[]], success_visible = False,
       alerts = [], console_errors = [], timers = [], clock = 0\<rparr>)
   \<and> button_label (submit True (Response False) 250 5000
      \<lparr>button_label = str ''Send Message'', button_disabled = False,
       field_values = [str ''Hello''], field_defaults = [[]], success_visible = False,
       alerts = [], console_errors = [], timers = [], clock = 0\<rparr>) = str ''Error''"
  by (simp add: submit_def advance_idle after_fetch_def on_failure_def setTimeout_def)

text \<open>
  The same holds after a response with the \<open>ok\<close> flag on a page without the success
  indicator, where the handler ends in the \<open>catch\<close> block: with the alert open for
  6 seconds the button is still disabled 6 seconds after the response.
\<close>

lemma alert_delays_restore_after_ok:
  "clock (submit False (Response True) 250 6000
      \<lparr>button_label = str ''Send Message'', button_disabled = False,
       field_values = [str ''Hello''], field_defaults = [[]], success_visible = False,
       alerts = [], console_errors = [], timers = [], clock = 0\<rparr>) = 6250
   \<and> button_disabled (submit False (Response True) 250 6000
      \<lparr>button_label = str ''Send Message'', button_disabled = False,
       field_values = [str ''Hello''], field_defaults = [[]], success_visible = False,
       alerts = [], console_errors = [], timers = [], clock = 0\<rparr>)"
  by (simp add: submit_def advance_idle after_fetch_def on_failure_def setTimeout_def)

text \<open>
  Claim C9, amended.  A submission starts with no timer pending.  After a response with
  the \<open>ok\<close> flag, on a page that has the success indicator, the button has its original
  label and is enabled from 4 seconds after the response on.  After a response without the
  flag or a network error, the button shows \<open>Error\<close> and the alert is shown; the button
  has its original label and is enabled once 3 seconds have passed since the failure and
  the alert has been dismissed, whichever comes later, and is disabled until then.  Here
  \<open>d\<close> is the time since the handler ended, which is \<open>dismiss\<close> after the failure.
\<close>

theorem restore_after_submission:
  assumes "timers pg = []"
  shows "(r = Response True \<and> h \<and> 4000 \<le> d \<longrightarrow>
            button_label (advance d (submit h r latency dismiss pg)) = button_label pg
            \<and> \<not> button_disabled (advance d (submit h r latency dismiss pg)))
       \<and> (r \<noteq> Response True \<longrightarrow>
            button_label (submit h r latency dismiss pg) = str ''Error''
            \<and> alerts (submit h r latency dismiss pg) = alerts pg @
                 [str ''Something went wrong. Please try again later or email us directly.'']
            \<and> clock (submit h r latency dismiss pg) = clock pg + latency + dismiss)
       \<and> (r \<noteq> Response True \<and> 3000 \<le> dismiss + d \<longrightarrow>
            button_label (advance d (submit h r latency dismiss pg)) = button_label pg
            \<and> \<not> button_disabled (advance d (submit h r latency dismiss pg)))
       \<and> (r \<noteq> Response True \<and> dismiss + d < 3000 \<longrightarrow>
            button_disabled (advance d (submit h r latency dismiss pg)))"
  using assms
  by (cases r; cases h)
     (auto simp: submit_def advance_idle after_fetch_def on_failure_def setTimeout_def
        advance_def due_timers_def Let_def)

theorem restore_after_submission_witness:
  "button_label (advance 4000 (submit True (Response True) 250 0
      \<lparr>button_label = str ''Send Message'', button_disabled = False,
       field_values = [str ''Hello''], field_defaults = [[]], success_visible = False,
       alerts = [], console_errors = [], timers = [], clock = 0\<rparr>)) = str ''Send Message''
   \<and> \<not> button_disabled (advance 4000 (submit True (Response True) 250 0
      \<lparr>button_label = str ''Send Message'', button_disabled = False,
       field_values = [str ''Hello''], field_defaults = [[]], success_visible = False,
       alerts = [], console_errors = [], timers = [], clock = 0\<rparr>))
   \<and> button_label (advance 1000 (submit True (Response False) 250 5000
      \<lparr>button_label = str ''Send Message'', button_disabled = False,
       field_values = [str ''Hello''], field_defaults = [[]], success_visible = False,
       alerts = [], console_errors = [], timers = [], clock = 0\<rparr>)) = str ''Send Message''
   \<and> \<not> button_disabled (advance 1000 (submit True (Response False) 250 5000
      \<lparr>button_label = str ''Send Message'', button_disabled = False,
       field_values = [str ''Hello''], field_defaults = [[]], success_visible = False,
       alerts = [], console_errors = [], timers = [], clock = 0\<rparr>))
   \<and> button_disabled (advance 1500 (submit True (Response False) 250 1000
      \<lparr>button_label = str ''Send Message'', button_disabled = False,
       field_values = [str ''Hello''], field_defaults = [[]], success_visible = False,
       alerts = [], console_errors = [], timers = [], clock = 0\<rparr>))"
proof -
  let ?pg = "\<lparr>button_label = str ''Send Message'', button_disabled = False,
       field_values = [str ''Hello''], field_defaults = [[]], success_visible = False,
       alerts = [], console_errors = [], timers = [], clock = 0\<rparr>"
  have t: "timers ?pg = []"
    by simp
  show ?thesis
    using restore_after_submission [OF t, of "Response True" True 4000 250 0]
      restore_after_submission [OF t, of "Response False" True 1000 250 5000]
      restore_after_submission [OF t, of "Response False" True 1500 250 1000]
    by simp
qed

section \<open>A page without the success indicator\<close>

text \<open>
  Claim C10 as stated says that the form is not reset.  It is: the handler resets the form
  before it touches the missing indicator, as this submission of a form holding
  \<open>Hello\<close> shows.
\<close>

theorem form_reset_without_indicator:
  "field_values (submit False (Response True) 250 1200
      \<lparr>button_label = str ''Send Message'', button_disabled = False,
       field_values = [str ''Hello''], field_defaults = [[]], success_visible = False,
       alerts = [], console_errors = [], timers = [], clock = 0\<rparr>) \<noteq> [str ''Hello'']"
  by (simp add: submit_def advance_idle after_fetch_def on_failure_def setTimeout_def str_def)

text \<open>
  Claim C10, amended.  On a page without the success indicator, a submission that starts
  with no timer pending and gets a response with the \<open>ok\<close> flag resets the form and
  then takes the failure path: the button shows \<open>Error\<close> and stays disabled, the alert
  is shown, the one timer set is the restoring one, due 3 seconds after the response, and
  once these 3 seconds have passed and the alert has been dismissed the button has its
  original label and is enabled.
\<close>

theorem failure_path_without_indicator:
  assumes "timers pg = []"
  shows "field_values (submit False (Response True) latency dismiss pg) = field_defaults pg
       \<and> button_label (submit False (Response True) latency dismiss pg) = str ''Error''
       \<and> button_disabled (submit False (Response True) latency dismiss pg)
       \<and> alerts (submit False (Response True) latency dismiss pg) = alerts pg @
            [str ''Something went wrong. Please try again later or email us directly.'']
       \<and> timers (submit False (Response True) latency dismiss pg) =
            [(clock pg + latency + 3000, RestoreAfterFailure (button_label pg))]
       \<and> (3000 \<le> dismiss + d \<longrightarrow>
            button_label (advance d (submit False (Response True) latency dismiss pg))
              = button_label pg
            \<and> \<not> button_disabled (advance d (submit False (Response True) latency dismiss pg)))"
  using assms
  by (auto simp: submit_def advance_idle after_fetch_def on_failure_def setTimeout_def
        advance_def due_timers_def Let_def)

theorem failure_path_without_indicator_witness:
  "field_values (submit False (Response True) 250 1200
      \<lparr>button_label = str ''Send Message'', button_disabled = False,
       field_values = [str ''Hello''], field_defaults = [[]], success_visible = False,
       alerts = [], console_errors = [], timers = [], clock = 0\<rparr>) = [[]]
   \<and> button_label (advance 1800 (submit False (Response True) 250 1200
      \<lparr>button_label = str ''Send Message'', button_disabled = False,
       field_values = [str ''Hello''], field_defaults = [[]], success_visible = False,
       alerts = [], console_errors = [], timers = [], clock = 0\<rparr>)) = str ''Send Message''"
proof -
  let ?pg = "\<lparr>button_label = str ''Send Message'', button_disabled = False,
       field_values = [str ''Hello''], field_defaults = [[]], success_visible = False,
       alerts = [], console_errors = [], timers = [], clock = 0\<rparr>"
  have t: "timers ?pg = []"
    by simp
  show ?thesis
    using failure_path_without_indicator [OF t, of 250 1200 1800]
    by simp
qed

section \<open>The sheet after a request\<close>

text \<open>
  The content of a list of cells, or of rows, ends where only empty ones follow: the length
  without the trailing empty elements is at most \<open>k\<close> exactly when every element from
  \<open>k\<close> on is empty.
\<close>

lemma trailing_length:
  "length (rev (dropWhile P (rev xs))) \<le> k \<longleftrightarrow> (\<forall>i. k \<le> i \<and> i < length xs \<longrightarrow> P (xs ! i))"
proof (induction xs rule: rev_induct)
  case Nil
  then show ?case by simp
next
  case (snoc x xs)
  show ?case
  proof (cases "P x")
    case True
    have "(\<forall>i. k \<le> i \<and> i < Suc (length xs) \<longrightarrow> P ((xs @ [x]) ! i))
          \<longleftrightarrow> (\<forall>i. k \<le> i \<and> i < length xs \<longrightarrow> P (xs ! i))"
      using True by (auto simp: nth_append less_Suc_eq)
    with True snoc show ?thesis by simp
  next
    case False
    have "(\<forall>i. k \<le> i \<and> i < length (xs @ [x]) \<longrightarrow> P ((xs @ [x]) ! i))
          \<longleftrightarrow> Suc (length xs) \<le> k"
    proof
      assume a: "\<forall>i. k \<le> i \<and> i < length (xs @ [x]) \<longrightarrow> P ((xs @ [x]) ! i)"
      show "Suc (length xs) \<le> k"
      proof (rule ccontr)
        assume "\<not> Suc (length xs) \<le> k"
        then have "k \<le> length xs" by simp
        with a have "P ((xs @ [x]) ! length xs)"
          by (metis length_append_singleton lessI)
        with False show False by simp
      qed
    next
      assume "Suc (length xs) \<le> k"
      then show "\<forall>i. k \<le> i \<and> i < length (xs @ [x]) \<longrightarrow> P ((xs @ [x]) ! i)"
        by auto
    qed
    with False show ?thesis by simp
  qed
qed

lemma content_width_le:
  "content_width r \<le> k \<longleftrightarrow> (\<forall>c. k \<le> c \<and> c < length r \<longrightarrow> r ! c = [])"
  unfolding content_width_def by (rule trailing_length)

lemma getLastColumn_le:
  "getLastColumn g \<le> k \<longleftrightarrow> (\<forall>r \<in> set g. content_width r \<le> k)"
  by (induction g) (auto simp: getLastColumn_def)

lemma beyond_content:
  assumes "r < length g" and "getLastColumn g \<le> c" and "c < length (g ! r)"
  shows "g ! r ! c = []"
proof -
  have "content_width (g ! r) \<le> c"
    using assms(1,2) getLastColumn_le[of g c] by simp
  then show ?thesis
    using assms(3) content_width_le[of "g ! r" c] by simp
qed

lemma cell_insertColumnsAfter:
  assumes "getLastColumn g \<le> p"
  shows "cell (insertColumnsAfter p m g) r c = cell g r c"
proof (cases "r < length g")
  case False
  then show ?thesis by (simp add: cell_def insertColumnsAfter_def)
next
  case True
  let ?row = "g ! r"
  have e: "\<And>i. p \<le> i \<Longrightarrow> i < length ?row \<Longrightarrow> ?row ! i = []"
    using beyond_content[OF True] assms by simp
  have new: "insertColumnsAfter p m g ! r = take p ?row @ replicate m [] @ drop p ?row"
    using True by (simp add: insertColumnsAfter_def)
  show ?thesis
  proof (cases "c < p")
    case lt: True
    show ?thesis
      using True lt by (auto simp: cell_def new nth_append insertColumnsAfter_def)
  next
    case ge: False
    have old: "cell g r c = []"
      using True ge e[of c] by (simp add: cell_def)
    have "(take p ?row @ replicate m [] @ drop p ?row) ! c = []"
      if "c < length (take p ?row @ replicate m [] @ drop p ?row)"
      using that ge e by (auto simp: nth_append min_def split: if_splits)
    then show ?thesis
      using True old by (simp add: cell_def new insertColumnsAfter_def)
  qed
qed

lemma cell_setHeaderValues:
  "cell (setHeaderValues hs g) r c =
     (if r = 0 \<and> c < length hs then hs ! c else cell g r c)"
proof (cases g)
  case Nil
  then show ?thesis by (auto simp: setHeaderValues_def cell_def)
next
  case (Cons r0 rs)
  then show ?thesis
    by (cases r) (auto simp: setHeaderValues_def cell_def nth_append)
qed

lemma row_empty_iff:
  "content_width x = 0 \<longleftrightarrow> (\<forall>c. c < length x \<longrightarrow> x ! c = [])"
  using content_width_le[of x 0] by simp

lemma getLastRow_le:
  "getLastRow g \<le> R \<longleftrightarrow> (\<forall>r c. R \<le> r \<longrightarrow> cell g r c = [])"
proof -
  have "getLastRow g \<le> R \<longleftrightarrow> (\<forall>r. R \<le> r \<and> r < length g \<longrightarrow> content_width (g ! r) = 0)"
    unfolding getLastRow_def by (rule trailing_length)
  also have "\<dots> \<longleftrightarrow> (\<forall>r c. R \<le> r \<longrightarrow> cell g r c = [])"
    by (auto simp: row_empty_iff cell_def)
  finally show ?thesis .
qed

lemma getLastRow_cong:
  assumes "\<And>r c. cell g r c = cell g' r c"
  shows "getLastRow g = getLastRow g'"
proof -
  have "getLastRow g \<le> R \<longleftrightarrow> getLastRow g' \<le> R" for R
    by (simp add: getLastRow_le assms)
  then show ?thesis
    by (meson order_refl order_antisym)
qed

lemma getLastRow_length: "getLastRow g \<le> length g"
  by (simp add: getLastRow_def) (metis length_dropWhile_le length_rev)

lemma cell_appendRow:
  "cell (appendRow row g) r c =
     (if r = getLastRow g then (if c < length row then row ! c else []) else cell g r c)"
proof -
  let ?R = "getLastRow g"
  have len: "length (take ?R g) = ?R"
    using getLastRow_length[of g] by simp
  consider "r < ?R" | "r = ?R" | "?R < r" by linarith
  then show ?thesis
  proof cases
    case 1
    then show ?thesis
      using getLastRow_length[of g] by (simp add: cell_def appendRow_def nth_append)
  next
    case 2
    then show ?thesis
      using len by (simp add: cell_def appendRow_def nth_append)
  next
    case 3
    have "cell g r c = []"
      using 3 getLastRow_le[of g ?R] by simp
    then show ?thesis
      using 3 len by (simp add: cell_def appendRow_def)
  qed
qed

lemma getLastRow_setHeaderValues:
  assumes "hs \<noteq> []" and "hd hs \<noteq> []"
  shows "getLastRow (setHeaderValues hs g) = max 1 (getLastRow g)"
proof -
  have top: "cell (setHeaderValues hs g) 0 0 \<noteq> []"
    using assms by (simp add: cell_setHeaderValues hd_conv_nth)
  have "getLastRow (setHeaderValues hs g) \<le> R \<longleftrightarrow> max 1 (getLastRow g) \<le> R" for R
  proof (cases R)
    case 0
    have "\<not> getLastRow (setHeaderValues hs g) \<le> 0"
      using top getLastRow_le[of "setHeaderValues hs g" 0] by blast
    with 0 show ?thesis
      by simp
  next
    case (Suc n)
    then show ?thesis
      by (auto simp: getLastRow_le cell_setHeaderValues)
  qed
  then show ?thesis
    by (meson order_refl order_antisym)
qed

lemma build_headers_content:
  "build_headers fo \<noteq> []" "hd (build_headers fo) \<noteq> []"
  by (simp_all add: build_headers_def str_def)


text \<open>
  Claim C8 does not hold of the code.  The header is written into the first cells of
  row 1 only, as many as the header has: on a sheet whose row 1 holds the three labels of
  an earlier request, a request with a header of two leaves the third label in place, so
  that row 1 is not the computed header afterwards.
\<close>

theorem stale_header_cell:
  "doPost (\<lambda>s. None) (str ''2024-05-02T10:00:00.000Z'') (\<lambda>c. None)
     \<lparr>postData = Some \<lparr>ptype = Some (str ''application/x-www-form-urlencoded''),
                          contents = Some (str ''Name=Al&_field_order=Name'')\<rparr>,
      parameter = None\<rparr>
     \<lparr>grid = [[str ''Timestamp'', str ''Name'', str ''Email''],
              [str ''2024-05-01T10:00:00.000Z'', str ''Bo'', str ''bo@b.c'']],
      max_columns = 26, outbox = []\<rparr> =
   (StatusSuccess,
    \<lparr>grid = [[str ''Timestamp'', str ''Name'', str ''Email''],
              [str ''2024-05-01T10:00:00.000Z'', str ''Bo'', str ''bo@b.c''],
              [str ''2024-05-02T10:00:00.000Z'', str ''Al'']],
      max_columns = 26,
      outbox = [str ''Timestamp:'' @ [0xA] @ str ''2024-05-02T10:00:00.000Z'' @ [0xA, 0xA]
                @ str ''Name:'' @ [0xA] @ str ''Al'']\<rparr>)"
  by code_simp

text \<open>
  What the calls do to the sheet when none of them throws, cell by cell (rows counted from
  0): the computed row is written below the last row with content and is empty beyond its
  cells; the first cells of row 1, as many as the header has, hold the header; every other
  cell keeps its content.  The grid is widened by as many columns as the header is longer
  than the last column with content.
\<close>

lemma persist_effect:
  assumes "persist f (build_headers fo) row w = (Inr (), w')"
  shows "(\<forall>r c. cell (grid w') r c =
            (if r = max 1 (getLastRow (grid w)) then (if c < length row then row ! c else [])
             else if r = 0 \<and> c < length (build_headers fo) then build_headers fo ! c
             else cell (grid w) r c))
       \<and> max_columns w' = max_columns w + (length (build_headers fo) - getLastColumn (grid w))
       \<and> outbox w' = outbox w"
proof -
  let ?hs = "build_headers fo"
  let ?g = "grid w"
  let ?lc = "getLastColumn ?g"
  define g1 where
    "g1 = (if ?lc < length ?hs
           then insertColumnsAfter (if ?lc = 0 then 1 else ?lc) (length ?hs - ?lc) ?g else ?g)"
  have c1: "cell g1 r c = cell ?g r c" for r c
    by (simp add: g1_def cell_insertColumnsAfter)
  have w': "w' = w\<lparr>grid := appendRow row (setHeaderValues ?hs g1),
                   max_columns := max_columns w + (length ?hs - ?lc)\<rparr>"
    using assms
    by (auto simp: persist_def ensure_columns_def write_header_def append_record_def g1_def
        split: option.splits if_splits)
  have R: "getLastRow (setHeaderValues ?hs g1) = max 1 (getLastRow ?g)"
    using getLastRow_setHeaderValues[OF build_headers_content, of fo g1]
      getLastRow_cong[of g1 ?g, OF c1] by simp
  show ?thesis
    by (simp add: w' cell_appendRow R cell_setHeaderValues c1)
qed

end
